theory Spec2Isabelle
  imports Complex_Main
begin

section \<open>Numbers and JavaScript conventions\<close>

text \<open>
  The trading bot is written in JavaScript.  Its numbers are modelled as exact reals: the
  properties below are statements about comparisons, \<open>Math.min\<close>/\<open>Math.max\<close> and a few sums,
  and none of them depends on rounding.  \<open>NaN\<close> and the infinities are outside the model.
  A value that may be \<open>null\<close> is an \<open>option\<close>.

  \<open>a || b\<close> on a nullable number yields \<open>b\<close> when \<open>a\<close> is \<open>null\<close> or \<open>0\<close>; in arithmetic and in
  relational comparisons \<open>null\<close> converts to \<open>0\<close>.
\<close>

definition js_or :: "real option \<Rightarrow> real \<Rightarrow> real" where
  "js_or a b = (case a of None \<Rightarrow> b | Some v \<Rightarrow> if v = 0 then b else v)"

definition num :: "real option \<Rightarrow> real" where
  "num a = (case a of None \<Rightarrow> 0 | Some v \<Rightarrow> v)"

section \<open>RiskManager: data model\<close>

datatype side = Buy | Sell

datatype status = Open | Closed

text \<open>
  The position object built by \<open>addPosition\<close>; the last five fields are the ones that
  \<open>closePosition\<close> adds to it.  The field \<open>size\<close> of the source is \<open>size_pos\<close> here.
\<close>

record position =
  symbol :: string
  side :: side
  size_pos :: real
  entryPrice :: real
  stopLoss :: real
  takeProfit :: real
  timestamp :: nat
  status :: status
  isTrailingStop :: bool
  trailingStopDistance :: "real option"
  highestPrice :: "real option"
  lowestPrice :: "real option"
  exitPrice :: "real option"
  exitTime :: "nat option"
  reason :: "string option"
  pnl :: "real option"

text \<open>
  The configuration module is not part of the sources; the entries that the risk manager
  reads are the fields of this record (\<open>config.trading.positionSize\<close>,
  \<open>config.trading.stopLoss\<close>, \<open>config.trading.riskRewardRatio\<close>,
  \<open>config.riskManagement.dailyLossLimit\<close>).
\<close>

record config =
  positionSize :: real
  cfg_stopLoss :: "real option"
  riskRewardRatio :: "real option"
  dailyLossLimit :: real

text \<open>
  The state of a \<open>RiskManager\<close> instance.  \<open>positions\<close> is the JavaScript \<open>Map\<close> from symbol
  to position object, \<open>lastResetDate\<close> the result of \<open>Date.toDateString\<close>.
\<close>

record riskManager =
  config :: config
  dailyLoss :: real
  dailyProfit :: real
  totalDrawdown :: real
  peakBalance :: real
  trades :: "position list"
  positions :: "string \<rightharpoonup> position"
  lastResetDate :: string

section \<open>RiskManager: operations\<close>

text \<open>\<open>checkDailyLossLimit\<close>; the argument \<open>today\<close> is \<open>new Date().toDateString()\<close>.\<close>

definition checkDailyLossLimit :: "riskManager \<Rightarrow> string \<Rightarrow> bool \<times> riskManager" where
  "checkDailyLossLimit rm today =
     (let rm1 = (if today \<noteq> lastResetDate rm
                 then rm\<lparr>dailyLoss := 0, dailyProfit := 0, lastResetDate := today\<rparr>
                 else rm)
      in (dailyLoss rm1 < dailyLossLimit (config rm1), rm1))"

subsection \<open>Position sizing\<close>

definition decimalsMap :: "(string \<times> nat) list" where
  "decimalsMap =
     [(''BTCUSDT'', 3), (''ETHUSDT'', 2), (''ETCUSDT'', 2), (''XRPUSDT'', 0),
      (''ADAUSDT'', 1), (''DOTUSDT'', 2), (''LINKUSDT'', 2), (''LTCUSDT'', 3),
      (''BCHUSDT'', 3), (''EOSUSDT'', 1), (''TRXUSDT'', 0), (''SOLUSDT'', 2),
      (''AVAXUSDT'', 2), (''FARTCOINUSDT'', 0), (''BNBUSDT'', 3), (''TRUMPUSDT'', 0),
      (''TONUSDT'', 2)]"

text \<open>\<open>decimalsMap[symbol] || 2\<close>: an entry \<open>0\<close> is falsy, so it also yields \<open>2\<close>.\<close>

definition getSymbolDecimals :: "string \<Rightarrow> nat" where
  "getSymbolDecimals smb =
     (case map_of decimalsMap smb of None \<Rightarrow> 2 | Some d \<Rightarrow> if d = 0 then 2 else d)"

definition minQtyMap :: "(string \<times> real) list" where
  "minQtyMap =
     [(''BTCUSDT'', 0.001), (''ETHUSDT'', 0.01), (''ETCUSDT'', 0.02), (''XRPUSDT'', 5),
      (''ADAUSDT'', 0.1), (''DOTUSDT'', 0.01), (''LINKUSDT'', 0.01), (''LTCUSDT'', 0.001),
      (''BCHUSDT'', 0.001), (''EOSUSDT'', 0.1), (''TRXUSDT'', 1), (''SOLUSDT'', 0.01),
      (''AVAXUSDT'', 0.01), (''FARTCOINUSDT'', 1), (''BNBUSDT'', 0.001), (''TRUMPUSDT'', 1),
      (''TONUSDT'', 0.01)]"

definition getMinQty :: "string \<Rightarrow> real" where
  "getMinQty smb = js_or (map_of minQtyMap smb) 0.01"

record positionSizeData =
  sizeUSD :: real
  quantity :: real
  price :: real

text \<open>
  \<open>calculatePositionSize(balance, symbol, signalStrength, confidence, currentPrice)\<close>.
  The guard \<open>currentPrice && currentPrice > 0\<close> fails for \<open>null\<close>, for \<open>0\<close> and for a
  negative price.
\<close>

definition calculatePositionSize ::
  "config \<Rightarrow> real \<Rightarrow> string \<Rightarrow> real \<Rightarrow> real \<Rightarrow> real option \<Rightarrow> positionSizeData" where
  "calculatePositionSize cfg balance smb signalStrength confidence currentPrice =
     (let baseSizeUSD = balance * positionSize cfg;
          strengthMultiplier = min (signalStrength * 1.5) 1.5;
          confidenceMultiplier = confidence / 100;
          adjustedSizeUSD = baseSizeUSD * strengthMultiplier * confidenceMultiplier;
          minSizeUSD = 25;
          maxSizeUSD = balance * 0.7;
          finalSizeUSD = max (min adjustedSizeUSD maxSizeUSD) minSizeUSD
      in case currentPrice of
           None \<Rightarrow> \<lparr>sizeUSD = finalSizeUSD, quantity = finalSizeUSD, price = 1\<rparr>
         | Some cp \<Rightarrow>
             if cp \<noteq> 0 \<and> cp > 0 then
               (let qty = finalSizeUSD / cp;
                    decimals = getSymbolDecimals smb;
                    roundedQuantity = real_of_int \<lfloor>qty * 10 ^ decimals\<rfloor> / 10 ^ decimals;
                    minQty = getMinQty smb;
                    finalQuantity = max roundedQuantity minQty
                in \<lparr>sizeUSD = finalSizeUSD, quantity = finalQuantity, price = cp\<rparr>)
             else \<lparr>sizeUSD = finalSizeUSD, quantity = finalSizeUSD, price = 1\<rparr>)"

subsection \<open>Stop-loss and take-profit\<close>

definition calculateStopLoss :: "config \<Rightarrow> real \<Rightarrow> side \<Rightarrow> real option \<Rightarrow> real" where
  "calculateStopLoss cfg entry sd riskPercent =
     (let defaultRisk = js_or (cfg_stopLoss cfg) 0.02;
          risk = js_or riskPercent defaultRisk
      in if sd = Buy then entry * (1 - risk) else entry * (1 + risk))"

definition calculateTakeProfit :: "config \<Rightarrow> real \<Rightarrow> side \<Rightarrow> real \<Rightarrow> real option \<Rightarrow> real" where
  "calculateTakeProfit cfg entry sd stop ratioArg =
     (let defaultRatio = js_or (riskRewardRatio cfg) 2;
          ratio = js_or ratioArg defaultRatio;
          riskDistance = \<bar>entry - stop\<bar>
      in if sd = Buy then entry + riskDistance * ratio else entry - riskDistance * ratio)"

definition validateStopLoss :: "position \<Rightarrow> real \<Rightarrow> bool" where
  "validateStopLoss p stopLossPrice =
     (if side p = Buy then stopLossPrice < entryPrice p else stopLossPrice > entryPrice p)"

definition setStopLoss :: "riskManager \<Rightarrow> string \<Rightarrow> real \<Rightarrow> bool \<Rightarrow> bool \<times> riskManager" where
  "setStopLoss rm smb stopLossPrice isTrailing =
     (case positions rm smb of
        None \<Rightarrow> (False, rm)
      | Some p \<Rightarrow>
          if \<not> validateStopLoss p stopLossPrice then (False, rm)
          else
            (let p1 = p\<lparr>stopLoss := stopLossPrice, isTrailingStop := isTrailing\<rparr>;
                 p2 = (if isTrailing
                       then p1\<lparr>trailingStopDistance := Some \<bar>entryPrice p1 - stopLossPrice\<bar>,
                               highestPrice :=
                                 Some (if side p1 = Buy then entryPrice p1 else stopLossPrice),
                               lowestPrice :=
                                 Some (if side p1 = Sell then entryPrice p1 else stopLossPrice)\<rparr>
                       else p1)
             in (True, rm\<lparr>positions := (positions rm)(smb \<mapsto> p2)\<rparr>)))"

text \<open>
  \<open>updateTrailingStop(symbol, currentPrice)\<close>.  The new extreme is stored before the
  candidate stop is compared with the current one, so the position object can change
  although the function returns \<open>false\<close>.
\<close>

definition updateTrailingStop :: "riskManager \<Rightarrow> string \<Rightarrow> real \<Rightarrow> bool \<times> riskManager" where
  "updateTrailingStop rm smb currentPrice =
     (case positions rm smb of
        None \<Rightarrow> (False, rm)
      | Some p \<Rightarrow>
          if \<not> isTrailingStop p then (False, rm)
          else if side p = Buy then
            (if currentPrice > num (highestPrice p) then
               (let p1 = p\<lparr>highestPrice := Some currentPrice\<rparr>;
                    newStopLoss = currentPrice - num (trailingStopDistance p)
                in if newStopLoss > stopLoss p1
                   then (True, rm\<lparr>positions := (positions rm)(smb \<mapsto> p1\<lparr>stopLoss := newStopLoss\<rparr>)\<rparr>)
                   else (False, rm\<lparr>positions := (positions rm)(smb \<mapsto> p1)\<rparr>))
             else (False, rm))
          else
            (if currentPrice < num (lowestPrice p) then
               (let p1 = p\<lparr>lowestPrice := Some currentPrice\<rparr>;
                    newStopLoss = currentPrice + num (trailingStopDistance p)
                in if newStopLoss < stopLoss p1
                   then (True, rm\<lparr>positions := (positions rm)(smb \<mapsto> p1\<lparr>stopLoss := newStopLoss\<rparr>)\<rparr>)
                   else (False, rm\<lparr>positions := (positions rm)(smb \<mapsto> p1)\<rparr>))
             else (False, rm)))"

subsection \<open>Opening and closing positions\<close>

text \<open>
  \<open>addPosition(symbol, side, size, entryPrice, customStopLoss, customTakeProfit,
  riskPercent)\<close>; \<open>now\<close> is \<open>Date.now()\<close>.  The function has no branch: it builds the position
  object, stores it with \<open>this.positions.set(symbol, position)\<close> and returns it.
\<close>

definition addPosition ::
  "riskManager \<Rightarrow> string \<Rightarrow> side \<Rightarrow> real \<Rightarrow> real \<Rightarrow> real option \<Rightarrow> real option \<Rightarrow> real option
     \<Rightarrow> nat \<Rightarrow> position \<times> riskManager" where
  "addPosition rm smb sd sz entry customStopLoss customTakeProfit riskPercent now =
     (let stop = js_or customStopLoss (calculateStopLoss (config rm) entry sd riskPercent);
          target = js_or customTakeProfit (calculateTakeProfit (config rm) entry sd stop None);
          p = \<lparr>symbol = smb, side = sd, size_pos = sz, entryPrice = entry,
               stopLoss = stop, takeProfit = target, timestamp = now, status = Open,
               isTrailingStop = False, trailingStopDistance = None,
               highestPrice = (if sd = Buy then Some entry else None),
               lowestPrice = (if sd = Sell then Some entry else None),
               exitPrice = None, exitTime = None, reason = None, pnl = None\<rparr>
      in (p, rm\<lparr>positions := (positions rm)(smb \<mapsto> p)\<rparr>))"

definition calculatePnL :: "position \<Rightarrow> real \<Rightarrow> real" where
  "calculatePnL p currentPrice =
     (if side p = Buy then (currentPrice - entryPrice p) * size_pos p
      else (entryPrice p - currentPrice) * size_pos p)"

text \<open>\<open>closePosition(symbol, exitPrice, reason)\<close>; \<open>now\<close> is \<open>Date.now()\<close>.\<close>

definition closePosition ::
  "riskManager \<Rightarrow> string \<Rightarrow> real \<Rightarrow> string \<Rightarrow> nat \<Rightarrow> position option \<times> riskManager" where
  "closePosition rm smb exit why now =
     (case positions rm smb of
        None \<Rightarrow> (None, rm)
      | Some p \<Rightarrow>
          (let v = calculatePnL p exit;
               p1 = p\<lparr>exitPrice := Some exit, exitTime := Some now, status := Closed,
                      reason := Some why, pnl := Some v\<rparr>;
               rm1 = (if v > 0 then rm\<lparr>dailyProfit := dailyProfit rm + v\<rparr>
                      else rm\<lparr>dailyLoss := dailyLoss rm + \<bar>v\<bar>\<rparr>)
           in (Some p1, rm1\<lparr>trades := trades rm1 @ [p1],
                             positions := (positions rm1)(smb := None)\<rparr>)))"

section \<open>TechnicalAnalysis: price history and indicators\<close>

record candle =
  c_timestamp :: nat
  c_open :: real
  c_high :: real
  c_low :: real
  c_close :: real
  c_volume :: real

text \<open>\<open>getPriceHistory\<close>: \<open>this.priceHistory.get(symbol) || []\<close>.\<close>

definition getPriceHistory :: "(string \<rightharpoonup> candle list) \<Rightarrow> string \<Rightarrow> candle list" where
  "getPriceHistory priceHistory smb = (case priceHistory smb of None \<Rightarrow> [] | Some h \<Rightarrow> h)"

definition getCurrentPrice :: "(string \<rightharpoonup> candle list) \<Rightarrow> string \<Rightarrow> real option" where
  "getCurrentPrice priceHistory smb =
     (let history = getPriceHistory priceHistory smb
      in if length history > 0 then Some (c_close (last history)) else None)"

text \<open>
  \<open>RSI.calculate\<close> and \<open>MACD.calculate\<close> belong to the package \<open>technicalindicators\<close>, which
  is not part of the sources.  They are parameters of the model: \<open>rsiLib values period\<close> and
  \<open>macdLib values fastPeriod slowPeriod signalPeriod\<close>.  An entry of the MACD output may
  lack its signal and histogram.
\<close>

record macdPoint =
  mp_MACD :: "real option"
  mp_signal :: "real option"
  mp_histogram :: "real option"

record macdValue =
  macd :: "real option"
  macd_signal :: "real option"
  histogram :: "real option"

definition calculateRSI ::
  "(real list \<Rightarrow> nat \<Rightarrow> real list) \<Rightarrow> (string \<rightharpoonup> candle list) \<Rightarrow> string \<Rightarrow> nat \<Rightarrow> real option" where
  "calculateRSI rsiLib priceHistory smb period =
     (let history = getPriceHistory priceHistory smb
      in if length history < period + 1 then None
         else (let closes = map c_close history;
                   rsi = rsiLib closes period
               in if length rsi > 0 then Some (last rsi) else None))"

definition calculateMACD ::
  "(real list \<Rightarrow> nat \<Rightarrow> nat \<Rightarrow> nat \<Rightarrow> macdPoint list) \<Rightarrow> (string \<rightharpoonup> candle list) \<Rightarrow> string
     \<Rightarrow> nat \<Rightarrow> nat \<Rightarrow> nat \<Rightarrow> macdValue option" where
  "calculateMACD macdLib priceHistory smb fastPeriod slowPeriod signalPeriod =
     (let history = getPriceHistory priceHistory smb
      in if length history < slowPeriod + signalPeriod then None
         else (let closes = map c_close history;
                   out = macdLib closes fastPeriod slowPeriod signalPeriod
               in if length out = 0 then None
                  else (let lastMACD = last out
                        in Some \<lparr>macd = mp_MACD lastMACD, macd_signal = mp_signal lastMACD,
                                 histogram = mp_histogram lastMACD\<rparr>)))"

subsection \<open>Volatility rank\<close>

datatype volRank = Low | Medium | High

text \<open>\<open>Array.prototype.slice(a, b)\<close> for \<open>0 \<le> a \<le> b\<close>.\<close>

definition slice :: "nat \<Rightarrow> nat \<Rightarrow> 'a list \<Rightarrow> 'a list" where
  "slice a b xs = take (b - a) (drop a xs)"

text \<open>The inner loop over \<open>j\<close>: the simple returns of consecutive closes of a window.\<close>

fun simpleReturns :: "candle list \<Rightarrow> real list" where
  "simpleReturns (a # b # rest) = (c_close b - c_close a) / c_close a # simpleReturns (b # rest)"
| "simpleReturns [a] = []"
| "simpleReturns [] = []"

definition realizedVolatility :: "candle list \<Rightarrow> real" where
  "realizedVolatility periodData =
     (let returns = simpleReturns periodData;
          avgReturn = sum_list returns / real (length returns);
          variance = sum_list (map (\<lambda>ret. (ret - avgReturn) ^ 2) returns) / real (length returns)
      in sqrt variance)"

text \<open>The outer loop \<open>for (let i = 20; i < history.length; i += 20)\<close>, started at \<open>i\<close>.\<close>

function windowVolatilities :: "candle list \<Rightarrow> nat \<Rightarrow> real list" where
  "windowVolatilities history i =
     (if i < length history
      then realizedVolatility (slice (i - 20) i history) # windowVolatilities history (i + 20)
      else [])"
  by pat_completeness auto
termination
  by (relation "measure (\<lambda>(history, i). length history - i)") auto

declare windowVolatilities.simps [simp del]

text \<open>\<open>Array.prototype.findIndex\<close>: the first index whose element passes, \<open>-1\<close> if none does.\<close>

fun findIndex :: "('a \<Rightarrow> bool) \<Rightarrow> 'a list \<Rightarrow> int" where
  "findIndex P [] = - 1"
| "findIndex P (x # xs) =
     (if P x then 0 else (let r = findIndex P xs in if r < 0 then - 1 else r + 1))"

definition getVolatilityRank :: "(string \<rightharpoonup> candle list) \<Rightarrow> string \<Rightarrow> real \<Rightarrow> volRank" where
  "getVolatilityRank priceHistory smb currentVolatility =
     (let history = getPriceHistory priceHistory smb
      in if length history < 100 then Medium
         else (let volatilities = sort (windowVolatilities history 20);
                   rank = real_of_int (findIndex (\<lambda>v. v \<ge> currentVolatility) volatilities)
                            / real (length volatilities)
               in if rank < 0.2 then Low else if rank > 0.8 then High else Medium))"

section \<open>TechnicalAnalysis: signal fusion\<close>

datatype direction = Bullish | Bearish | Neutral

datatype tsignal = BuySignal | SellSignal | NeutralSignal

datatype recommendation =
  strong_buy | moderate_buy | weak_buy | strong_sell | moderate_sell | weak_sell
  | weak_trend | mixed_signals | insufficient_data

text \<open>
  The result objects of the analyses that \<open>analyzeSignal\<close> combines: \<open>analysis\<close> for
  \<open>analyzeRSIAdvanced\<close>, \<open>analyzeMACDAdvanced\<close> and \<open>analyzeBollingerBandsAdvanced\<close>,
  \<open>trendResult\<close> for \<open>analyzeTrend\<close>, \<open>longTermTrend\<close> for \<open>analyzeLongTermTrend\<close>,
  \<open>volumeAnalysis\<close> for \<open>analyzeVolume\<close> and \<open>volatilityInfo\<close> for \<open>calculateVolatility\<close>.
\<close>

record analysis =
  a_signal :: direction
  a_strength :: real
  a_confidence :: real

record trendResult =
  trend :: direction
  trend_strength :: real

record longTermTrend =
  direction :: direction
  lt_strength :: real
  lt_confidence :: real
  recommendation :: recommendation

record bollinger =
  upper :: real
  middle :: real
  lower :: real

record volumeAnalysis =
  volumeRatio :: real
  obvTrend :: direction
  volumeConfirmation :: bool

record volatilityInfo =
  volatility :: real
  atr :: "real option"
  volatilityRank :: volRank

definition truthy :: "real option \<Rightarrow> bool" where
  "truthy a = (case a of None \<Rightarrow> False | Some v \<Rightarrow> v \<noteq> 0)"

definition analyzeBollingerBandsAdvanced :: "real \<Rightarrow> bollinger \<Rightarrow> analysis" where
  "analyzeBollingerBandsAdvanced cp b =
     (let bbWidth = (upper b - lower b) / middle b
      in if cp \<le> lower b * 1.001 \<and> bbWidth > 0.02
           then \<lparr>a_signal = Bullish, a_strength = 1.1, a_confidence = 20\<rparr>
         else if cp \<ge> upper b * 0.999 \<and> bbWidth > 0.02
           then \<lparr>a_signal = Bearish, a_strength = 1.1, a_confidence = 20\<rparr>
         else if cp > upper b \<and> bbWidth < 0.015
           then \<lparr>a_signal = Bullish, a_strength = 1.3, a_confidence = 25\<rparr>
         else if cp < lower b \<and> bbWidth < 0.015
           then \<lparr>a_signal = Bearish, a_strength = 1.3, a_confidence = 25\<rparr>
         else \<lparr>a_signal = Neutral, a_strength = 0, a_confidence = 0\<rparr>)"

definition getTrendWeight :: "longTermTrend \<Rightarrow> real" where
  "getTrendWeight lt = min (lt_strength lt * (lt_confidence lt / 100)) 1.0"

record alignment =
  aligned :: bool
  al_direction :: direction
  score :: real

definition checkTrendAlignment :: "longTermTrend \<Rightarrow> analysis \<Rightarrow> analysis \<Rightarrow> alignment" where
  "checkTrendAlignment lt rsiA macdA =
     (if direction lt = Neutral then \<lparr>aligned = False, al_direction = Neutral, score = 0\<rparr>
      else
        (let agrees = (\<lambda>a. (direction lt = Bullish \<and> a_signal a = Bullish)
                            \<or> (direction lt = Bearish \<and> a_signal a = Bearish));
             (alignmentScore1, totalChecks1) =
               (if a_signal rsiA \<noteq> Neutral
                then (if agrees rsiA then (1::nat) else 0, 1::nat) else (0, 0));
             (alignmentScore, totalChecks) =
               (if a_signal macdA \<noteq> Neutral
                then (if agrees macdA then alignmentScore1 + 1 else alignmentScore1,
                      totalChecks1 + 1)
                else (alignmentScore1, totalChecks1));
             alignmentRatio =
               (if totalChecks > 0 then real alignmentScore / real totalChecks else 0)
         in \<lparr>aligned = (alignmentRatio \<ge> 0.5), al_direction = direction lt,
              score = alignmentRatio\<rparr>))"

text \<open>The four accumulators of \<open>analyzeSignal\<close>.\<close>

record fusion =
  bullishSignals :: real
  bearishSignals :: real
  totalSignals :: nat
  conf :: real

text \<open>
  The block that \<open>analyzeSignal\<close> repeats for the RSI, the MACD and the Bollinger analysis:
  a directional result adds its strength and confidence, a neutral one adds the baseline
  confidence \<open>5\<close>; then \<open>totalSignals++\<close>.
\<close>

definition vote :: "analysis \<Rightarrow> fusion \<Rightarrow> fusion" where
  "vote a f =
     (let f1 = (if a_signal a = Bullish
                  then f\<lparr>bullishSignals := bullishSignals f + a_strength a,
                         conf := conf f + a_confidence a\<rparr>
                else if a_signal a = Bearish
                  then f\<lparr>bearishSignals := bearishSignals f + a_strength a,
                         conf := conf f + a_confidence a\<rparr>
                else f\<lparr>conf := conf f + 5\<rparr>)
      in f1\<lparr>totalSignals := totalSignals f1 + 1\<rparr>)"

definition voteTrend :: "trendResult \<Rightarrow> fusion \<Rightarrow> fusion" where
  "voteTrend t f =
     (let f1 = (if trend t = Bullish
                  then f\<lparr>bullishSignals := bullishSignals f + trend_strength t * 1.0,
                         conf := conf f + trend_strength t * 15\<rparr>
                else if trend t = Bearish
                  then f\<lparr>bearishSignals := bearishSignals f + trend_strength t * 1.0,
                         conf := conf f + trend_strength t * 15\<rparr>
                else f\<lparr>conf := conf f + 5\<rparr>)
      in f1\<lparr>totalSignals := totalSignals f1 + 1\<rparr>)"

definition voteLongTerm :: "longTermTrend \<Rightarrow> fusion \<Rightarrow> fusion" where
  "voteLongTerm lt f =
     (let f1 =
        (if direction lt = Bullish then
           (let trendWeight = getTrendWeight lt;
                f2 = f\<lparr>bullishSignals := bullishSignals f + trendWeight * 2.0,
                       conf := conf f + lt_confidence lt * 0.8\<rparr>
            in if recommendation lt = strong_buy
                 then f2\<lparr>bullishSignals := bullishSignals f2 + 1.0, conf := conf f2 + 20\<rparr>
               else if recommendation lt = moderate_buy
                 then f2\<lparr>bullishSignals := bullishSignals f2 + 0.5, conf := conf f2 + 10\<rparr>
               else f2)
         else if direction lt = Bearish then
           (let trendWeight = getTrendWeight lt;
                f2 = f\<lparr>bearishSignals := bearishSignals f + trendWeight * 2.0,
                       conf := conf f + lt_confidence lt * 0.8\<rparr>
            in if recommendation lt = strong_sell
                 then f2\<lparr>bearishSignals := bearishSignals f2 + 1.0, conf := conf f2 + 20\<rparr>
               else if recommendation lt = moderate_sell
                 then f2\<lparr>bearishSignals := bearishSignals f2 + 0.5, conf := conf f2 + 10\<rparr>
               else f2)
         else f\<lparr>conf := conf f + 5\<rparr>)
      in f1\<lparr>totalSignals := totalSignals f1 + 1\<rparr>)"

definition voteVolume :: "volumeAnalysis option \<Rightarrow> fusion \<Rightarrow> fusion" where
  "voteVolume vol f =
     (case vol of
        None \<Rightarrow> f
      | Some v \<Rightarrow>
          (let f1 = (if volumeConfirmation v then
                       (if obvTrend v = Bullish
                          then f\<lparr>bullishSignals := bullishSignals f + 0.8, conf := conf f + 15\<rparr>
                        else if obvTrend v = Bearish
                          then f\<lparr>bearishSignals := bearishSignals f + 0.8, conf := conf f + 15\<rparr>
                        else f\<lparr>conf := conf f + 8\<rparr>)
                     else f\<lparr>conf := conf f + 3\<rparr>)
           in f1\<lparr>totalSignals := totalSignals f1 + 1\<rparr>))"

definition voteVolatility :: "volatilityInfo option \<Rightarrow> fusion \<Rightarrow> fusion" where
  "voteVolatility vol f =
     (case vol of
        None \<Rightarrow> f
      | Some v \<Rightarrow>
          (case volatilityRank v of
             Medium \<Rightarrow> f\<lparr>conf := conf f + 10\<rparr>
           | Low \<Rightarrow> f\<lparr>conf := conf f + 5\<rparr>
           | High \<Rightarrow> f\<lparr>conf := conf f + 3\<rparr>))"

definition voteAlignment :: "alignment \<Rightarrow> fusion \<Rightarrow> fusion" where
  "voteAlignment al f =
     (if aligned al then
        (if al_direction al = Bullish
           then f\<lparr>bullishSignals := bullishSignals f + 0.5, conf := conf f + 15\<rparr>
         else if al_direction al = Bearish
           then f\<lparr>bearishSignals := bearishSignals f + 0.5, conf := conf f + 15\<rparr>
         else f)
      else f\<lparr>conf := conf f * 0.7\<rparr>)"

text \<open>
  The values that \<open>analyzeSignal\<close> obtains at its start.  The RSI and MACD analyses, the
  trends, the volume analysis and the volatility depend on the indicator package and on the
  configuration module, so their results are the inputs of the model.
\<close>

record signalInputs =
  in_rsi :: "real option"
  in_macd :: "macdValue option"
  in_trend :: trendResult
  in_longTermTrend :: longTermTrend
  in_bb :: "bollinger option"
  in_currentPrice :: "real option"
  in_volume :: "volumeAnalysis option"
  in_volatility :: "volatilityInfo option"
  in_rsiAnalysis :: analysis
  in_macdAnalysis :: analysis

text \<open>Steps 1 to 8 of \<open>analyzeSignal\<close>, in the order of the source.\<close>

definition fuse :: "signalInputs \<Rightarrow> fusion" where
  "fuse inp =
     (let f0 = \<lparr>bullishSignals = 0, bearishSignals = 0, totalSignals = 0, conf = 0\<rparr>;
          f1 = vote (in_rsiAnalysis inp) f0;
          f2 = vote (in_macdAnalysis inp) f1;
          f3 = voteTrend (in_trend inp) f2;
          f4 = voteLongTerm (in_longTermTrend inp) f3;
          f5 = (case in_bb inp of
                  None \<Rightarrow> f4
                | Some b \<Rightarrow> vote (analyzeBollingerBandsAdvanced (num (in_currentPrice inp)) b) f4);
          f6 = voteVolume (in_volume inp) f5;
          f7 = voteVolatility (in_volatility inp) f6
      in voteAlignment
           (checkTrendAlignment (in_longTermTrend inp) (in_rsiAnalysis inp) (in_macdAnalysis inp))
           f7)"

definition signalStrengthOf :: "fusion \<Rightarrow> real" where
  "signalStrengthOf f =
     (if totalSignals f > 0
      then \<bar>bullishSignals f - bearishSignals f\<bar> / real (totalSignals f) else 0)"

definition finalConfidenceOf :: "fusion \<Rightarrow> real" where
  "finalConfidenceOf f = min (conf f) 100"

text \<open>The local variable \<open>signal\<close> of \<open>analyzeSignal\<close>: the base signal.\<close>

definition baseSignalOf :: "fusion \<Rightarrow> tsignal" where
  "baseSignalOf f =
     (if bullishSignals f > bearishSignals f \<and> signalStrengthOf f > 0.4
           \<and> finalConfidenceOf f > 30 then BuySignal
      else if bearishSignals f > bullishSignals f \<and> signalStrengthOf f > 0.4
           \<and> finalConfidenceOf f > 30 then SellSignal
      else NeutralSignal)"

text \<open>The final check of \<open>analyzeSignal\<close>: the long-term trend against the base signal.\<close>

definition finalSignalOf :: "longTermTrend \<Rightarrow> tsignal \<Rightarrow> tsignal" where
  "finalSignalOf lt sg =
     (if direction lt \<noteq> Neutral \<and> lt_confidence lt > 50 then
        (if direction lt = Bullish \<and> sg = BuySignal then BuySignal
         else if direction lt = Bearish \<and> sg = SellSignal then SellSignal
         else if direction lt = Bullish \<and> sg = SellSignal then NeutralSignal
         else if direction lt = Bearish \<and> sg = BuySignal then NeutralSignal
         else sg)
      else sg)"

record signalResult =
  signal :: tsignal
  strength :: real
  confidence :: real
  rsi_value :: "real option"
  macd_value :: "macdValue option"

text \<open>\<open>!rsi || !macd || !currentPrice\<close>: the early return of \<open>analyzeSignal\<close>.\<close>

definition unavailable :: "signalInputs \<Rightarrow> bool" where
  "unavailable inp =
     (\<not> truthy (in_rsi inp) \<or> in_macd inp = None \<or> \<not> truthy (in_currentPrice inp))"

definition analyzeSignal :: "signalInputs \<Rightarrow> signalResult" where
  "analyzeSignal inp =
     (if unavailable inp
      then \<lparr>signal = NeutralSignal, strength = 0, confidence = 0,
            rsi_value = None, macd_value = None\<rparr>
      else (let f = fuse inp
            in \<lparr>signal = finalSignalOf (in_longTermTrend inp) (baseSignalOf f),
                 strength = signalStrengthOf f,
                 confidence = finalConfidenceOf f,
                 rsi_value = in_rsi inp, macd_value = in_macd inp\<rparr>))"

text \<open>The base signal of a run of \<open>analyzeSignal\<close>; there is none when it returns early.\<close>

definition baseSignal :: "signalInputs \<Rightarrow> tsignal option" where
  "baseSignal inp = (if unavailable inp then None else Some (baseSignalOf (fuse inp)))"

section \<open>TechnicalAnalysis: volatility of the current window\<close>

text \<open>\<open>history.slice(-n)\<close>: the last \<open>n\<close> elements; \<open>slice(-0)\<close> is the whole array.\<close>

definition sliceLast :: "nat \<Rightarrow> 'a list \<Rightarrow> 'a list" where
  "sliceLast n xs = (if n = 0 then xs else drop (length xs - n) xs)"

text \<open>
  \<open>calculateATR\<close>; \<open>ATR.calculate\<close> of the indicator package is the parameter \<open>atrLib\<close>, applied
  to the highs, the lows, the closes and the period.
\<close>

definition calculateATR ::
  "(real list \<Rightarrow> real list \<Rightarrow> real list \<Rightarrow> nat \<Rightarrow> real list) \<Rightarrow> (string \<rightharpoonup> candle list)
     \<Rightarrow> string \<Rightarrow> nat \<Rightarrow> real option" where
  "calculateATR atrLib priceHistory smb period =
     (let history = getPriceHistory priceHistory smb
      in if length history < period + 1 then None
         else (let out = atrLib (map c_high history) (map c_low history)
                           (map c_close history) period
               in if length out > 0 then Some (last out) else None))"

text \<open>
  \<open>calculateVolatility(symbol, period)\<close>: the realized volatility of the last \<open>period\<close>
  candles, computed as in \<open>getVolatilityRank\<close>, and its rank.
\<close>

definition calculateVolatility ::
  "(real list \<Rightarrow> real list \<Rightarrow> real list \<Rightarrow> nat \<Rightarrow> real list) \<Rightarrow> (string \<rightharpoonup> candle list)
     \<Rightarrow> string \<Rightarrow> nat \<Rightarrow> volatilityInfo option" where
  "calculateVolatility atrLib priceHistory smb period =
     (let history = getPriceHistory priceHistory smb
      in if length history < period then None
         else (let recentCandles = sliceLast period history;
                   vol = realizedVolatility recentCandles
               in Some \<lparr>volatility = vol * 100,
                        atr = calculateATR atrLib priceHistory smb period,
                        volatilityRank = getVolatilityRank priceHistory smb vol\<rparr>))"

section \<open>TradingBot: trend reversal of an open position\<close>

text \<open>
  The trend object of \<open>TradingBot.analyzeTrend\<close>, as far as \<open>detectTrendReversal\<close> reads it.
\<close>

record shortTermTrend =
  st_direction :: direction
  st_strength :: real

text \<open>\<open>config.trading.profitProtection\<close>; the configuration module is not in the sources.\<close>

record profitProtection =
  enabled :: bool
  minProfitPercent :: real
  trendReversalThreshold :: real
  criticalReversalThreshold :: real
  lossMinimizationPercent :: real
  lossMinimizationThreshold :: real

record indicators =
  technicalSignal :: real
  ind_longTermTrend :: real
  ind_shortTermTrend :: real
  ind_rsi :: real
  ind_macd :: real
  ind_confidence :: real

text \<open>
  The reason of the source is a Russian text.  Its content is kept as data: the fragments
  that the six checks append, in order, and the head that the decision puts in front of them
  (\<open>Disabled\<close> for the text returned when profit protection is switched off, \<open>NoHead\<close> for
  a hold).  The formatted percentage at the end of the text is not modelled.
\<close>

datatype reasonPart =
  TechnicalSell | TechnicalBuy | LongTermBearish | LongTermBullish
  | ShortTermBearish | ShortTermBullish | RsiOverbought | RsiOversold
  | MacdBearishCross | MacdBullishCross

datatype reasonHead = Disabled | ProfitProtection | CriticalReversal | LossMinimization | NoHead

record reversal =
  shouldClose :: bool
  reasonHead :: reasonHead
  reasonParts :: "reasonPart list"
  rev_strength :: real
  rev_indicators :: indicators
  pnlPercent :: real

text \<open>A comparison with an \<open>undefined\<close> operand is false.\<close>

definition lt_opt :: "real option \<Rightarrow> real option \<Rightarrow> bool" where
  "lt_opt a b = (case (a, b) of (Some x, Some y) \<Rightarrow> x < y | _ \<Rightarrow> False)"

definition checkTechnical :: "side \<Rightarrow> signalResult \<Rightarrow> real \<times> reasonPart list" where
  "checkTechnical sd sg =
     (if sd = Buy \<and> signal sg = SellSignal then (strength sg * 0.3, [TechnicalSell])
      else if sd = Sell \<and> signal sg = BuySignal then (strength sg * 0.3, [TechnicalBuy])
      else (0, []))"

definition checkLongTerm :: "side \<Rightarrow> longTermTrend option \<Rightarrow> real \<times> reasonPart list" where
  "checkLongTerm sd ltOpt =
     (case ltOpt of
        None \<Rightarrow> (0, [])
      | Some lt \<Rightarrow>
          if direction lt \<noteq> Neutral then
            (if sd = Buy \<and> direction lt = Bearish \<and> lt_confidence lt > 60
               then ((lt_confidence lt / 100) * 0.35, [LongTermBearish])
             else if sd = Sell \<and> direction lt = Bullish \<and> lt_confidence lt > 60
               then ((lt_confidence lt / 100) * 0.35, [LongTermBullish])
             else (0, []))
          else (0, []))"

definition checkShortTerm :: "side \<Rightarrow> shortTermTrend option \<Rightarrow> real \<times> reasonPart list" where
  "checkShortTerm sd stOpt =
     (case stOpt of
        None \<Rightarrow> (0, [])
      | Some st \<Rightarrow>
          if st_direction st \<noteq> Neutral then
            (if sd = Buy \<and> st_direction st = Bearish
               then (st_strength st * 0.2, [ShortTermBearish])
             else if sd = Sell \<and> st_direction st = Bullish
               then (st_strength st * 0.2, [ShortTermBullish])
             else (0, []))
          else (0, []))"

definition checkRsi :: "side \<Rightarrow> signalResult \<Rightarrow> real \<times> reasonPart list" where
  "checkRsi sd sg =
     (if truthy (rsi_value sg) then
        (let rsi = num (rsi_value sg)
         in if sd = Buy \<and> rsi > 75 then (0.075, [RsiOverbought])
            else if sd = Sell \<and> rsi < 25 then (0.075, [RsiOversold])
            else (0, []))
      else (0, []))"

definition checkMacd :: "side \<Rightarrow> signalResult \<Rightarrow> real \<times> reasonPart list" where
  "checkMacd sd sg =
     (case macd_value sg of
        None \<Rightarrow> (0, [])
      | Some m \<Rightarrow>
          if sd = Buy \<and> lt_opt (macd m) (macd_signal m) \<and> lt_opt (histogram m) (Some 0)
            then (0.075, [MacdBearishCross])
          else if sd = Sell \<and> lt_opt (macd_signal m) (macd m) \<and> lt_opt (Some 0) (histogram m)
            then (0.075, [MacdBullishCross])
          else (0, []))"

definition checkConfidence :: "signalResult \<Rightarrow> real" where
  "checkConfidence sg = (if confidence sg < 30 then 0 else (confidence sg / 100) * 0.025)"

text \<open>
  \<open>detectTrendReversal(position, signal, longTermTrend, shortTermTrend, pnlPercent)\<close>; the
  first argument of the model is \<open>config.trading.profitProtection\<close>, which may be absent.
\<close>

definition detectTrendReversal ::
  "profitProtection option \<Rightarrow> position \<Rightarrow> signalResult \<Rightarrow> longTermTrend option
     \<Rightarrow> shortTermTrend option \<Rightarrow> real \<Rightarrow> reversal" where
  "detectTrendReversal pp p sg ltOpt stOpt pnlPct =
     (let sd = side p;
          (i1, r1) = checkTechnical sd sg;
          (i2, r2) = checkLongTerm sd ltOpt;
          (i3, r3) = checkShortTerm sd stOpt;
          (i4, r4) = checkRsi sd sg;
          (i5, r5) = checkMacd sd sg;
          i6 = checkConfidence sg;
          ind = \<lparr>technicalSignal = i1, ind_longTermTrend = i2, ind_shortTermTrend = i3,
                  ind_rsi = i4, ind_macd = i5, ind_confidence = i6\<rparr>;
          parts = r1 @ r2 @ r3 @ r4 @ r5;
          total = 0 + i1 + i2 + i3 + i4 + i5 + i6;
          hold = \<lparr>shouldClose = False, reasonHead = NoHead, reasonParts = parts,
                   rev_strength = total, rev_indicators = ind, pnlPercent = pnlPct\<rparr>;
          off = hold\<lparr>reasonHead := Disabled, reasonParts := []\<rparr>
      in case pp of
           None \<Rightarrow> off
         | Some c \<Rightarrow>
             if \<not> enabled c then off
             else if pnlPct > minProfitPercent c \<and> total > trendReversalThreshold c
               then hold\<lparr>shouldClose := True, reasonHead := ProfitProtection\<rparr>
             else if total > criticalReversalThreshold c
               then hold\<lparr>shouldClose := True, reasonHead := CriticalReversal\<rparr>
             else if pnlPct < lossMinimizationPercent c \<and> total > lossMinimizationThreshold c
               then hold\<lparr>shouldClose := True, reasonHead := LossMinimization\<rparr>
             else hold)"

section \<open>Call sequences and example states\<close>

text \<open>
  A call of one of the risk manager's methods, and a sequence of such calls made while the
  calendar day is \<open>today\<close>.
\<close>

datatype rmOp =
  CheckLimit
  | ClosePosition string real string nat
  | AddPosition string side real real "real option" "real option" "real option" nat
  | SetStopLoss string real bool
  | UpdateTrailingStop string real

fun applyOp :: "string \<Rightarrow> rmOp \<Rightarrow> riskManager \<Rightarrow> riskManager" where
  "applyOp today CheckLimit rm = snd (checkDailyLossLimit rm today)"
| "applyOp today (ClosePosition smb exit why now) rm = snd (closePosition rm smb exit why now)"
| "applyOp today (AddPosition smb sd sz entry sl tp risk now) rm =
     snd (addPosition rm smb sd sz entry sl tp risk now)"
| "applyOp today (SetStopLoss smb sl tr) rm = snd (setStopLoss rm smb sl tr)"
| "applyOp today (UpdateTrailingStop smb cp) rm = snd (updateTrailingStop rm smb cp)"

definition runOps :: "string \<Rightarrow> rmOp list \<Rightarrow> riskManager \<Rightarrow> riskManager" where
  "runOps today ops rm = fold (applyOp today) ops rm"

text \<open>
  A configuration with the default values named in the documentation of the system: 5 per
  cent of the balance per position, a 2 per cent stop, a reward ratio of 2 and a daily loss
  limit of 500 dollars.
\<close>

definition cfg0 :: config where
  "cfg0 = \<lparr>positionSize = 0.05, cfg_stopLoss = Some 0.02, riskRewardRatio = Some 2,
           dailyLossLimit = 500\<rparr>"

text \<open>A long position of 6 units entered at 100, and the same position with a trailing stop.\<close>

definition pos0 :: position where
  "pos0 = \<lparr>symbol = ''BTCUSDT'', side = Buy, size_pos = 6, entryPrice = 100, stopLoss = 98,
           takeProfit = 104, timestamp = 1000, status = Open, isTrailingStop = False,
           trailingStopDistance = None, highestPrice = Some 100, lowestPrice = None,
           exitPrice = None, exitTime = None, reason = None, pnl = None\<rparr>"

definition posT :: position where
  "posT = pos0\<lparr>isTrailingStop := True, trailingStopDistance := Some 2,
               lowestPrice := Some 98\<rparr>"

text \<open>A short position of 2 units entered at 50.\<close>

definition posS :: position where
  "posS = \<lparr>symbol = ''ETHUSDT'', side = Sell, size_pos = 2, entryPrice = 50, stopLoss = 51,
           takeProfit = 48, timestamp = 1000, status = Open, isTrailingStop = False,
           trailingStopDistance = None, highestPrice = None, lowestPrice = Some 50,
           exitPrice = None, exitTime = None, reason = None, pnl = None\<rparr>"

text \<open>A risk manager that has lost 450 dollars today and holds the long position.\<close>

definition rm0 :: riskManager where
  "rm0 = \<lparr>config = cfg0, dailyLoss = 450, dailyProfit = 0, totalDrawdown = 0,
          peakBalance = 0, trades = [], positions = [''BTCUSDT'' \<mapsto> pos0],
          lastResetDate = ''Sun Nov 01 2026''\<rparr>"

definition rmT :: riskManager where
  "rmT = rm0\<lparr>positions := [''BTCUSDT'' \<mapsto> posT]\<rparr>"

text \<open>
  Inputs of \<open>analyzeSignal\<close> with a bullish long-term trend of confidence 60, against a
  bearish RSI, MACD and short-term trend.
\<close>

definition inpContra :: signalInputs where
  "inpContra =
     \<lparr>in_rsi = Some 80,
      in_macd = Some \<lparr>macd = Some (- 1), macd_signal = Some 1, histogram = Some (- 2)\<rparr>,
      in_trend = \<lparr>trend = Bearish, trend_strength = 1\<rparr>,
      in_longTermTrend = \<lparr>direction = Bullish, lt_strength = 0.4, lt_confidence = 60,
                           recommendation = weak_buy\<rparr>,
      in_bb = None,
      in_currentPrice = Some 100,
      in_volume = None,
      in_volatility = None,
      in_rsiAnalysis = \<lparr>a_signal = Bearish, a_strength = 1.5, a_confidence = 45\<rparr>,
      in_macdAnalysis = \<lparr>a_signal = Bearish, a_strength = 1.4, a_confidence = 55\<rparr>\<rparr>"

text \<open>
  The profit-protection settings and the signal of the reversal example: a buy signal of
  strength 1 and confidence 100 with an RSI of 20, and a bullish short-term trend of
  strength 0.75, against a short position.  The contributions are
  \<open>0.3 + 0.15 + 0.075 + 0.025 = 0.55\<close>.
\<close>

definition pp0 :: profitProtection where
  "pp0 = \<lparr>enabled = True, minProfitPercent = 2, trendReversalThreshold = 0.4,
          criticalReversalThreshold = 0.7, lossMinimizationPercent = - 1,
          lossMinimizationThreshold = 0.5\<rparr>"

definition sigBuy :: signalResult where
  "sigBuy = \<lparr>signal = BuySignal, strength = 1, confidence = 100, rsi_value = Some 20,
             macd_value = None\<rparr>"

definition stBull :: shortTermTrend where
  "stBull = \<lparr>st_direction = Bullish, st_strength = 0.75\<rparr>"

text \<open>
  A candle that closes at \<open>c\<close>; a history of five candles; and a history of 120 candles in
  which the first 119 close at 100 and the last one closes at 110.
\<close>

definition flatCandle :: "real \<Rightarrow> candle" where
  "flatCandle c = \<lparr>c_timestamp = 0, c_open = c, c_high = c, c_low = c, c_close = c,
                   c_volume = 1\<rparr>"

definition shortHistory :: "string \<rightharpoonup> candle list" where
  "shortHistory = [''BTCUSDT'' \<mapsto> replicate 5 (flatCandle 100)]"

definition spikeHistory :: "string \<rightharpoonup> candle list" where
  "spikeHistory = [''BTCUSDT'' \<mapsto> replicate 119 (flatCandle 100) @ [flatCandle 110]]"

section \<open>Closing a position that is not open\<close>

text \<open>
  C10.  For every symbol with no open position in the risk manager, \<open>closePosition\<close>
  returns \<open>null\<close> and the risk-manager state after the call is the state before it: the
  position map, the trade history and the daily loss and profit accumulators are unchanged.
\<close>

theorem closePosition_absent:
  assumes "positions rm smb = None"
  shows "closePosition rm smb exit why now = (None, rm)"
  using assms by (simp add: closePosition_def)

theorem closePosition_absent_witness:
  "positions rm0 ''ETHUSDT'' = None
   \<and> closePosition rm0 ''ETHUSDT'' 50 ''manual'' 2000 = (None, rm0)"
proof -
  have h: "positions rm0 ''ETHUSDT'' = None" by (simp add: rm0_def)
  show ?thesis using h closePosition_absent [OF h, of 50 "''manual''" 2000] by simp
qed

section \<open>Validation of a stop-loss\<close>

text \<open>
  C5.  For every open position, \<open>setStopLoss\<close> accepts a proposed stop-loss price exactly
  when the price is on the loss side of the entry price: strictly below it for a long
  (Buy) position, strictly above it for a short (Sell) position.  An accepted price becomes
  the position's stop-loss; on rejection the call returns \<open>false\<close> and the state, hence the
  position's stop-loss, is unchanged.
\<close>

theorem setStopLoss_validation:
  assumes "positions rm smb = Some p"
  shows "fst (setStopLoss rm smb sl tr)
           = (if side p = Buy then sl < entryPrice p else sl > entryPrice p)
         \<and> (if fst (setStopLoss rm smb sl tr)
            then map_option stopLoss (positions (snd (setStopLoss rm smb sl tr)) smb) = Some sl
            else snd (setStopLoss rm smb sl tr) = rm)"
  using assms by (simp add: setStopLoss_def validateStopLoss_def Let_def)

theorem setStopLoss_validation_witness:
  "positions rm0 ''BTCUSDT'' = Some pos0
   \<and> fst (setStopLoss rm0 ''BTCUSDT'' 99 False) = True
   \<and> map_option stopLoss (positions (snd (setStopLoss rm0 ''BTCUSDT'' 99 False)) ''BTCUSDT'')
       = Some 99
   \<and> fst (setStopLoss rm0 ''BTCUSDT'' 101 False) = False
   \<and> snd (setStopLoss rm0 ''BTCUSDT'' 101 False) = rm0"
proof -
  have h: "positions rm0 ''BTCUSDT'' = Some pos0" by (simp add: rm0_def)
  have e: "side pos0 = Buy" "entryPrice pos0 = 100" by (simp_all add: pos0_def)
  show ?thesis
    using h e setStopLoss_validation [OF h, of 99 False]
      setStopLoss_validation [OF h, of 101 False]
    by (simp split: if_splits)
qed

section \<open>The trailing stop only tightens\<close>

text \<open>
  C4.  For every open position with the trailing stop enabled and every current price,
  \<open>updateTrailingStop\<close> leaves the position open on the same side, and its stop-loss after
  the call is greater than or equal to the one before for a long (Buy) position, less than
  or equal for a short (Sell) position.
\<close>

theorem updateTrailingStop_monotone:
  assumes "positions rm smb = Some p" and "isTrailingStop p"
  shows "\<exists>p'. positions (snd (updateTrailingStop rm smb cp)) smb = Some p'
              \<and> side p' = side p
              \<and> (if side p = Buy then stopLoss p \<le> stopLoss p'
                  else stopLoss p' \<le> stopLoss p)"
  using assms by (cases "side p") (simp_all add: updateTrailingStop_def Let_def)

theorem updateTrailingStop_monotone_witness:
  "positions rmT ''BTCUSDT'' = Some posT \<and> isTrailingStop posT
   \<and> (\<exists>p'. positions (snd (updateTrailingStop rmT ''BTCUSDT'' 105)) ''BTCUSDT'' = Some p'
              \<and> side p' = side posT
              \<and> (if side posT = Buy then stopLoss posT \<le> stopLoss p'
                  else stopLoss p' \<le> stopLoss posT))"
proof -
  have h: "positions rmT ''BTCUSDT'' = Some posT" by (simp add: rmT_def)
  have t: "isTrailingStop posT" by (simp add: posT_def)
  show ?thesis using h t updateTrailingStop_monotone [OF h t, of 105] by simp
qed

section \<open>Opening a position for a symbol that already has one\<close>

text \<open>
  C1, as stated: for a symbol that already has an open position, \<open>addPosition\<close> is rejected,
  returns a failure indicator and leaves the existing position and the rest of the state
  unchanged.  This fails.  With a long position open for BTCUSDT, a second \<open>addPosition\<close>
  for BTCUSDT, now short, changes the state; the position stored for BTCUSDT afterwards is
  the new short one, which is also the value returned, with status open.
\<close>

theorem addPosition_duplicate_counterexample:
  "positions rm0 ''BTCUSDT'' = Some pos0
   \<and> side pos0 = Buy
   \<and> snd (addPosition rm0 ''BTCUSDT'' Sell 2 200 None None None 2000) \<noteq> rm0
   \<and> positions (snd (addPosition rm0 ''BTCUSDT'' Sell 2 200 None None None 2000)) ''BTCUSDT''
       = Some (fst (addPosition rm0 ''BTCUSDT'' Sell 2 200 None None None 2000))
   \<and> side (fst (addPosition rm0 ''BTCUSDT'' Sell 2 200 None None None 2000)) = Sell
   \<and> status (fst (addPosition rm0 ''BTCUSDT'' Sell 2 200 None None None 2000)) = Open"
proof -
  let ?r = "addPosition rm0 ''BTCUSDT'' Sell 2 200 None None None 2000"
  have a: "positions rm0 ''BTCUSDT'' = Some pos0" by (simp add: rm0_def)
  have b: "side pos0 = Buy" by (simp add: pos0_def)
  have c: "positions (snd ?r) ''BTCUSDT'' = Some (fst ?r)"
    by (simp add: addPosition_def Let_def)
  have d: "side (fst ?r) = Sell" "status (fst ?r) = Open"
    by (simp_all add: addPosition_def Let_def)
  have e: "snd ?r \<noteq> rm0"
  proof
    assume "snd ?r = rm0"
    with c a have "fst ?r = pos0" by simp
    with d b show False by simp
  qed
  show ?thesis using a b c d e by simp
qed

text \<open>
  C1, amended: for a symbol that already has an open position, \<open>addPosition\<close> is not
  rejected.  It returns the new open position, built from its arguments, and stores it
  under the symbol in place of the existing one; the entries of all other symbols, the
  trade history, the daily accumulators and the rest of the state are unchanged.  The
  positions are kept in a map keyed by symbol, so there is still one entry per symbol.
\<close>

theorem addPosition_replaces:
  assumes "positions rm smb = Some p"
  shows "positions (snd (addPosition rm smb sd sz entry sl tp risk now))
           = (positions rm)(smb \<mapsto> fst (addPosition rm smb sd sz entry sl tp risk now))
         \<and> (snd (addPosition rm smb sd sz entry sl tp risk now))\<lparr>positions := positions rm\<rparr>
             = rm
         \<and> symbol (fst (addPosition rm smb sd sz entry sl tp risk now)) = smb
         \<and> side (fst (addPosition rm smb sd sz entry sl tp risk now)) = sd
         \<and> size_pos (fst (addPosition rm smb sd sz entry sl tp risk now)) = sz
         \<and> entryPrice (fst (addPosition rm smb sd sz entry sl tp risk now)) = entry
         \<and> status (fst (addPosition rm smb sd sz entry sl tp risk now)) = Open"
  by (simp add: addPosition_def Let_def)

theorem addPosition_replaces_witness:
  "positions rm0 ''BTCUSDT'' = Some pos0
   \<and> positions (snd (addPosition rm0 ''BTCUSDT'' Sell 2 200 None None None 2000))
       = (positions rm0)(''BTCUSDT'' \<mapsto>
            fst (addPosition rm0 ''BTCUSDT'' Sell 2 200 None None None 2000))
   \<and> (snd (addPosition rm0 ''BTCUSDT'' Sell 2 200 None None None 2000))
         \<lparr>positions := positions rm0\<rparr> = rm0
   \<and> side (fst (addPosition rm0 ''BTCUSDT'' Sell 2 200 None None None 2000)) = Sell
   \<and> status (fst (addPosition rm0 ''BTCUSDT'' Sell 2 200 None None None 2000)) = Open"
proof -
  have h: "positions rm0 ''BTCUSDT'' = Some pos0" by (simp add: rm0_def)
  show ?thesis
    using h addPosition_replaces [OF h, of Sell 2 200 None None None 2000] by simp
qed

section \<open>Bounds of the position size\<close>

text \<open>
  C2, as stated: for every balance above 0, every signal strength, every confidence
  between 0 and 100 and every positive current price, the \<open>sizeUSD\<close> returned by
  \<open>calculatePositionSize\<close> lies between 25 and 0.7 times the balance.  This fails for a
  small balance: with a balance of 10 the result is 25, which exceeds 7.
\<close>

theorem calculatePositionSize_small_balance_counterexample:
  "(0::real) < 10 \<and> (0::real) \<le> 50 \<and> (50::real) \<le> 100 \<and> (0::real) < 100
   \<and> sizeUSD (calculatePositionSize cfg0 10 ''BTCUSDT'' 1 50 (Some 100)) = 25
   \<and> \<not> (25 \<le> 0.7 * (10::real))"
  by (simp add: calculatePositionSize_def cfg0_def Let_def)

text \<open>
  C2, amended: for every balance, every signal strength, every confidence and every
  positive current price, the returned \<open>sizeUSD\<close> is at least 25 and at most the larger of
  25 and 0.7 times the balance (the floor of 25 is applied last and wins over the cap), and
  the returned quantity is never below the minimum order quantity of the symbol.
\<close>

theorem calculatePositionSize_bounds:
  assumes "0 < cp"
  shows "25 \<le> sizeUSD (calculatePositionSize cfg balance smb str cf (Some cp))
         \<and> sizeUSD (calculatePositionSize cfg balance smb str cf (Some cp))
             \<le> max 25 (0.7 * balance)
         \<and> getMinQty smb \<le> quantity (calculatePositionSize cfg balance smb str cf (Some cp))"
  using assms by (simp add: calculatePositionSize_def Let_def)

theorem calculatePositionSize_bounds_witness:
  "(0::real) < 50000
   \<and> 25 \<le> sizeUSD (calculatePositionSize cfg0 10000 ''BTCUSDT'' 0.9 80 (Some 50000))
   \<and> sizeUSD (calculatePositionSize cfg0 10000 ''BTCUSDT'' 0.9 80 (Some 50000))
       \<le> max 25 (0.7 * 10000)
   \<and> getMinQty ''BTCUSDT''
       \<le> quantity (calculatePositionSize cfg0 10000 ''BTCUSDT'' 0.9 80 (Some 50000))"
proof -
  have h: "(0::real) < 50000" by simp
  show ?thesis
    using h calculatePositionSize_bounds [OF h, where cfg = cfg0 and balance = 10000
        and smb = "''BTCUSDT''" and str = "0.9" and cf = 80]
    by simp
qed

section \<open>The daily loss limit\<close>

lemma applyOp_same_day:
  assumes "lastResetDate rm = today"
  shows "lastResetDate (applyOp today op rm) = today
         \<and> config (applyOp today op rm) = config rm
         \<and> dailyLoss rm \<le> dailyLoss (applyOp today op rm)"
  using assms
  by (cases op)
     (auto simp add: checkDailyLossLimit_def closePosition_def addPosition_def setStopLoss_def
        updateTrailingStop_def Let_def split: option.splits)

lemma runOps_same_day:
  assumes "lastResetDate rm = today"
  shows "lastResetDate (runOps today ops rm) = today
         \<and> config (runOps today ops rm) = config rm
         \<and> dailyLoss rm \<le> dailyLoss (runOps today ops rm)"
  using assms
proof (induction ops arbitrary: rm)
  case Nil
  then show ?case by (simp add: runOps_def)
next
  case (Cons op ops)
  from applyOp_same_day [OF Cons.prems, of op]
  have a: "lastResetDate (applyOp today op rm) = today"
    and b: "config (applyOp today op rm) = config rm"
    and c: "dailyLoss rm \<le> dailyLoss (applyOp today op rm)" by simp_all
  from Cons.IH [OF a] b c show ?case by (simp add: runOps_def)
qed

lemma closePosition_loss:
  assumes "positions rm smb = Some p" and "calculatePnL p exit = v" and "v \<le> 0"
  shows "dailyLoss (snd (closePosition rm smb exit why now)) = dailyLoss rm - v"
    and "lastResetDate (snd (closePosition rm smb exit why now)) = lastResetDate rm"
    and "config (snd (closePosition rm smb exit why now)) = config rm"
  using assms by (simp_all add: closePosition_def Let_def)

text \<open>
  C7.  With a daily loss limit of 500 and the daily loss accumulator at 450 on the day of
  \<open>lastResetDate\<close>, \<open>checkDailyLossLimit\<close> returns true (and changes nothing).  After
  \<open>closePosition\<close> has recorded a trade of pnl \<open>-60\<close> the accumulator is 510, and after any
  further sequence of calls on the same day \<open>checkDailyLossLimit\<close> returns false.  Called on
  another day, it resets the accumulator to 0 and returns true.
\<close>

theorem daily_loss_limit_example:
  assumes "dailyLossLimit (config rm) = 500" and "dailyLoss rm = 450"
    and "lastResetDate rm = today"
    and "positions rm smb = Some p" and "calculatePnL p exit = - 60"
    and "nextDay \<noteq> today"
  shows "checkDailyLossLimit rm today = (True, rm)
         \<and> dailyLoss (snd (closePosition rm smb exit why now)) = 510
         \<and> fst (checkDailyLossLimit
                  (runOps today ops (snd (closePosition rm smb exit why now))) today) = False
         \<and> dailyLoss (snd (checkDailyLossLimit
                  (runOps today ops (snd (closePosition rm smb exit why now))) nextDay)) = 0
         \<and> fst (checkDailyLossLimit
                  (runOps today ops (snd (closePosition rm smb exit why now))) nextDay) = True"
proof -
  let ?rm1 = "snd (closePosition rm smb exit why now)"
  let ?rm2 = "runOps today ops ?rm1"
  have first: "checkDailyLossLimit rm today = (True, rm)"
    using assms(1-3) by (simp add: checkDailyLossLimit_def)
  have loss: "dailyLoss ?rm1 = 510" and day: "lastResetDate ?rm1 = today"
    and cfg: "config ?rm1 = config rm"
    using closePosition_loss [OF assms(4,5), of why now] assms(2,3) by simp_all
  from runOps_same_day [OF day, of ops]
  have day2: "lastResetDate ?rm2 = today" and cfg2: "config ?rm2 = config ?rm1"
    and mono: "dailyLoss ?rm1 \<le> dailyLoss ?rm2" by simp_all
  have blocked: "fst (checkDailyLossLimit ?rm2 today) = False"
    using day2 cfg2 cfg mono loss assms(1) by (simp add: checkDailyLossLimit_def)
  have reset: "dailyLoss (snd (checkDailyLossLimit ?rm2 nextDay)) = 0"
    "fst (checkDailyLossLimit ?rm2 nextDay) = True"
    using day2 cfg2 cfg assms(1,6) by (simp_all add: checkDailyLossLimit_def)
  show ?thesis using first loss blocked reset by simp
qed

theorem daily_loss_limit_example_witness:
  "dailyLossLimit (config rm0) = 500 \<and> dailyLoss rm0 = 450
   \<and> lastResetDate rm0 = ''Sun Nov 01 2026''
   \<and> positions rm0 ''BTCUSDT'' = Some pos0 \<and> calculatePnL pos0 90 = - 60
   \<and> ''Mon Nov 02 2026'' \<noteq> ''Sun Nov 01 2026''
   \<and> checkDailyLossLimit rm0 ''Sun Nov 01 2026'' = (True, rm0)
   \<and> dailyLoss (snd (closePosition rm0 ''BTCUSDT'' 90 ''stop_loss'' 2000)) = 510
   \<and> fst (checkDailyLossLimit
            (runOps ''Sun Nov 01 2026''
               [CheckLimit, AddPosition ''ETHUSDT'' Sell 2 50 None None None 3000, CheckLimit]
               (snd (closePosition rm0 ''BTCUSDT'' 90 ''stop_loss'' 2000)))
            ''Sun Nov 01 2026'') = False
   \<and> dailyLoss (snd (checkDailyLossLimit
            (runOps ''Sun Nov 01 2026''
               [CheckLimit, AddPosition ''ETHUSDT'' Sell 2 50 None None None 3000, CheckLimit]
               (snd (closePosition rm0 ''BTCUSDT'' 90 ''stop_loss'' 2000)))
            ''Mon Nov 02 2026'')) = 0
   \<and> fst (checkDailyLossLimit
            (runOps ''Sun Nov 01 2026''
               [CheckLimit, AddPosition ''ETHUSDT'' Sell 2 50 None None None 3000, CheckLimit]
               (snd (closePosition rm0 ''BTCUSDT'' 90 ''stop_loss'' 2000)))
            ''Mon Nov 02 2026'') = True"
proof -
  have h1: "dailyLossLimit (config rm0) = 500" by (simp add: rm0_def cfg0_def)
  have h2: "dailyLoss rm0 = 450" by (simp add: rm0_def)
  have h3: "lastResetDate rm0 = ''Sun Nov 01 2026''" by (simp add: rm0_def)
  have h4: "positions rm0 ''BTCUSDT'' = Some pos0" by (simp add: rm0_def)
  have h5: "calculatePnL pos0 90 = - 60" by (simp add: calculatePnL_def pos0_def)
  have h6: "''Mon Nov 02 2026'' \<noteq> ''Sun Nov 01 2026''" by simp
  show ?thesis
    using h1 h2 h3 h4 h5 h6
      daily_loss_limit_example [OF h1 h2 h3 h4 h5 h6, of "''stop_loss''" 2000
        "[CheckLimit, AddPosition ''ETHUSDT'' Sell 2 50 None None None 3000, CheckLimit]"]
    by simp
qed

section \<open>The long-term trend against the base signal\<close>

lemma fuse_inpContra:
  "fuse inpContra
     = \<lparr>bullishSignals = 0.48, bearishSignals = 3.9, totalSignals = 4, conf = 114.1\<rparr>"
  by (simp add: fuse_def inpContra_def vote_def voteTrend_def voteLongTerm_def voteVolume_def
      voteVolatility_def voteAlignment_def checkTrendAlignment_def getTrendWeight_def Let_def)

lemma baseSignal_inpContra: "baseSignal inpContra = Some SellSignal"
  by (simp add: baseSignal_def fuse_inpContra baseSignalOf_def signalStrengthOf_def
        finalConfidenceOf_def)
     (simp add: unavailable_def inpContra_def truthy_def)

text \<open>
  C3.  For every run of \<open>analyzeSignal\<close> that reaches the fusion, with a long-term trend
  that is not neutral and has confidence above 50: if the base signal contradicts the
  long-term direction (bullish against sell, bearish against buy) the returned signal is
  neutral, and otherwise, in particular when the base signal agrees with the direction, the
  returned signal is the base signal.
\<close>

theorem analyzeSignal_long_term_veto:
  assumes "baseSignal inp = Some b"
    and "direction (in_longTermTrend inp) \<noteq> Neutral"
    and "lt_confidence (in_longTermTrend inp) > 50"
  shows "signal (analyzeSignal inp)
           = (if (direction (in_longTermTrend inp) = Bullish \<and> b = SellSignal)
                 \<or> (direction (in_longTermTrend inp) = Bearish \<and> b = BuySignal)
              then NeutralSignal else b)"
proof -
  from assms(1) have av: "\<not> unavailable inp" and b: "b = baseSignalOf (fuse inp)"
    by (simp_all add: baseSignal_def split: if_splits)
  from av have "signal (analyzeSignal inp) = finalSignalOf (in_longTermTrend inp) b"
    by (simp add: analyzeSignal_def Let_def b)
  also have "\<dots> = (if (direction (in_longTermTrend inp) = Bullish \<and> b = SellSignal)
                 \<or> (direction (in_longTermTrend inp) = Bearish \<and> b = BuySignal)
              then NeutralSignal else b)"
    using assms(2,3)
    by (cases "direction (in_longTermTrend inp)"; cases b) (simp_all add: finalSignalOf_def)
  finally show ?thesis .
qed

theorem analyzeSignal_long_term_veto_witness:
  "baseSignal inpContra = Some SellSignal
   \<and> direction (in_longTermTrend inpContra) = Bullish
   \<and> lt_confidence (in_longTermTrend inpContra) > 50
   \<and> signal (analyzeSignal inpContra) = NeutralSignal"
proof -
  have h2: "direction (in_longTermTrend inpContra) \<noteq> Neutral"
    and d: "direction (in_longTermTrend inpContra) = Bullish"
    and h3: "lt_confidence (in_longTermTrend inpContra) > 50"
    by (simp_all add: inpContra_def)
  show ?thesis
    using baseSignal_inpContra d h3
      analyzeSignal_long_term_veto [OF baseSignal_inpContra h2 h3]
    by simp
qed

section \<open>Profit protection on a trend reversal\<close>

lemma rev_strength_total:
  "rev_strength (detectTrendReversal pp p sg ltOpt stOpt pnlPct)
     = fst (checkTechnical (side p) sg) + fst (checkLongTerm (side p) ltOpt)
       + fst (checkShortTerm (side p) stOpt) + fst (checkRsi (side p) sg)
       + fst (checkMacd (side p) sg) + checkConfidence sg"
  by (simp add: detectTrendReversal_def Let_def case_prod_beta split: option.splits)

lemma rev_strength_example:
  "rev_strength (detectTrendReversal (Some pp0) posS sigBuy None (Some stBull) 3) = 0.55"
  by (simp add: rev_strength_total checkTechnical_def checkLongTerm_def checkShortTerm_def
      checkRsi_def checkMacd_def checkConfidence_def posS_def sigBuy_def stBull_def
      truthy_def num_def)

text \<open>
  C6.  For every open position, when profit protection is enabled and the computed reversal
  strength exceeds the trend-reversal threshold while the PnL per cent exceeds the
  profit-protection threshold, \<open>detectTrendReversal\<close> decides to close, with the
  profit-protection reason.  The witness is the example of a short position whose
  contributions sum to 0.55, with a PnL of 3 per cent, a profit threshold of 2 per cent and
  a reversal threshold of 0.4.
\<close>

theorem detectTrendReversal_profit_protection:
  assumes "enabled c"
    and "rev_strength (detectTrendReversal (Some c) p sg ltOpt stOpt pnlPct)
           > trendReversalThreshold c"
    and "pnlPct > minProfitPercent c"
  shows "shouldClose (detectTrendReversal (Some c) p sg ltOpt stOpt pnlPct)
         \<and> reasonHead (detectTrendReversal (Some c) p sg ltOpt stOpt pnlPct)
             = ProfitProtection"
proof -
  from assms(2)
  have "trendReversalThreshold c
          < fst (checkTechnical (side p) sg) + fst (checkLongTerm (side p) ltOpt)
            + fst (checkShortTerm (side p) stOpt) + fst (checkRsi (side p) sg)
            + fst (checkMacd (side p) sg) + checkConfidence sg"
    by (simp only: rev_strength_total)
  with assms(1,3) show ?thesis
    by (simp add: detectTrendReversal_def Let_def case_prod_beta)
qed

theorem detectTrendReversal_profit_protection_witness:
  "side posS = Sell \<and> enabled pp0 \<and> minProfitPercent pp0 = 2
   \<and> trendReversalThreshold pp0 = 0.4
   \<and> rev_strength (detectTrendReversal (Some pp0) posS sigBuy None (Some stBull) 3) = 0.55
   \<and> shouldClose (detectTrendReversal (Some pp0) posS sigBuy None (Some stBull) 3)
   \<and> reasonHead (detectTrendReversal (Some pp0) posS sigBuy None (Some stBull) 3)
       = ProfitProtection"
proof -
  have h1: "enabled pp0" and t: "minProfitPercent pp0 = 2" "trendReversalThreshold pp0 = 0.4"
    by (simp_all add: pp0_def)
  have s: "side posS = Sell" by (simp add: posS_def)
  have h2: "rev_strength (detectTrendReversal (Some pp0) posS sigBuy None (Some stBull) 3)
              > trendReversalThreshold pp0"
    by (simp add: rev_strength_example t)
  have h3: "3 > minProfitPercent pp0" by (simp add: t)
  show ?thesis
    using h1 t s rev_strength_example detectTrendReversal_profit_protection [OF h1 h2 h3]
    by simp
qed

section \<open>Indicators on a short history\<close>

text \<open>
  C8.  For every symbol whose stored history has fewer than \<open>period + 1\<close> candles,
  \<open>calculateRSI\<close> returns \<open>null\<close>, and for every symbol whose history has fewer than
  \<open>slowPeriod + signalPeriod\<close> candles, \<open>calculateMACD\<close> returns \<open>null\<close>, whatever the
  indicator package would compute; the functions of the model are total, so no exception
  is raised on these paths.
\<close>

theorem indicators_unavailable:
  "(length (getPriceHistory ph smb) < period + 1
      \<longrightarrow> calculateRSI rsiLib ph smb period = None)
   \<and> (length (getPriceHistory ph smb) < slowPeriod + signalPeriod
      \<longrightarrow> calculateMACD macdLib ph smb fastPeriod slowPeriod signalPeriod = None)"
  by (simp add: calculateRSI_def calculateMACD_def Let_def)

theorem indicators_unavailable_witness:
  "length (getPriceHistory shortHistory ''BTCUSDT'') < 14 + 1
   \<and> calculateRSI (\<lambda>values period. values) shortHistory ''BTCUSDT'' 14 = None
   \<and> length (getPriceHistory shortHistory ''BTCUSDT'') < 26 + 9
   \<and> calculateMACD
        (\<lambda>values fastPeriod slowPeriod signalPeriod.
            [\<lparr>mp_MACD = Some 1, mp_signal = Some 1, mp_histogram = Some 0\<rparr>])
        shortHistory ''BTCUSDT'' 12 26 9 = None
   \<and> length (getPriceHistory shortHistory ''ETHUSDT'') < 14 + 1
   \<and> calculateRSI (\<lambda>values period. values) shortHistory ''ETHUSDT'' 14 = None"
proof -
  have h: "length (getPriceHistory shortHistory ''BTCUSDT'') = 5"
    "length (getPriceHistory shortHistory ''ETHUSDT'') = 0"
    by (simp_all add: getPriceHistory_def shortHistory_def)
  show ?thesis
    using h
      indicators_unavailable [of shortHistory "''BTCUSDT''" 14 "\<lambda>values period. values" 26 9
        "\<lambda>values fastPeriod slowPeriod signalPeriod.
            [\<lparr>mp_MACD = Some 1, mp_signal = Some 1, mp_histogram = Some 0\<rparr>]" 12]
      indicators_unavailable [of shortHistory "''ETHUSDT''" 14 "\<lambda>values period. values" 26 9
        "\<lambda>values fastPeriod slowPeriod signalPeriod. []" 12]
    by simp
qed

section \<open>The volatility rank of the most volatile window\<close>

lemma simpleReturns_replicate: "simpleReturns (replicate n c) = replicate (n - 1) 0"
proof (induction n)
  case 0
  then show ?case by simp
next
  case (Suc n)
  then show ?case by (cases n) simp_all
qed

lemma simpleReturns_replicate_snoc:
  "simpleReturns (replicate (Suc n) c @ [d])
     = replicate n 0 @ [(c_close d - c_close c) / c_close c]"
  by (induction n) simp_all

lemma realizedVolatility_flat: "realizedVolatility (replicate n c) = 0"
  by (simp add: realizedVolatility_def simpleReturns_replicate Let_def sum_list_replicate)

lemma window_flat:
  "k + 20 \<le> 119 \<Longrightarrow> slice k (k + 20) (replicate 119 c @ [d]) = replicate 20 c"
  by (simp add: slice_def min_def)

lemma windows_spike:
  "windowVolatilities (replicate 119 (flatCandle 100) @ [flatCandle 110]) 20
     = [0, 0, 0, 0, 0]"
proof -
  let ?h = "replicate 119 (flatCandle 100) @ [flatCandle 110]"
  have w120: "windowVolatilities ?h 120 = []"
    by (subst windowVolatilities.simps) simp
  have w100: "windowVolatilities ?h 100 = [0]"
    using window_flat [of 80 "flatCandle 100" "flatCandle 110"]
    by (subst windowVolatilities.simps) (simp add: w120 realizedVolatility_flat)
  have w80: "windowVolatilities ?h 80 = [0, 0]"
    using window_flat [of 60 "flatCandle 100" "flatCandle 110"]
    by (subst windowVolatilities.simps) (simp add: w100 realizedVolatility_flat)
  have w60: "windowVolatilities ?h 60 = [0, 0, 0]"
    using window_flat [of 40 "flatCandle 100" "flatCandle 110"]
    by (subst windowVolatilities.simps) (simp add: w80 realizedVolatility_flat)
  have w40: "windowVolatilities ?h 40 = [0, 0, 0, 0]"
    using window_flat [of 20 "flatCandle 100" "flatCandle 110"]
    by (subst windowVolatilities.simps) (simp add: w60 realizedVolatility_flat)
  show ?thesis
    using window_flat [of 0 "flatCandle 100" "flatCandle 110"]
    by (subst windowVolatilities.simps) (simp add: w40 realizedVolatility_flat)
qed

lemma current_spike:
  "0 < realizedVolatility (sliceLast 20 (replicate 119 (flatCandle 100) @ [flatCandle 110]))"
proof -
  have a: "sliceLast 20 (replicate 119 (flatCandle 100) @ [flatCandle 110])
          = replicate (Suc 18) (flatCandle 100) @ [flatCandle 110]"
    by (simp add: sliceLast_def)
  have b: "simpleReturns (replicate (Suc 18) (flatCandle 100) @ [flatCandle 110])
          = replicate 18 0 @ [1 / 10]"
    by (simp only: simpleReturns_replicate_snoc) (simp add: flatCandle_def)
  show ?thesis
    unfolding a realizedVolatility_def b Let_def
    by (simp add: sum_list_replicate power2_eq_square)
qed

text \<open>
  C9 says that the current volatility is ranked high exactly when it falls in the top
  20th percentile of the window samples.  The code does not do so for the most volatile
  window of all.  In a history of 120 candles whose first 119 closes are 100 and whose last
  close is 110, the five sampled windows have volatility 0 and the current window has a
  positive volatility, above every sample; \<open>findIndex\<close> then finds no sample that is at
  least the current value and returns \<open>-1\<close>, the rank is negative, and the result is low.
\<close>

theorem getVolatilityRank_above_all_samples:
  "sort (windowVolatilities (getPriceHistory spikeHistory ''BTCUSDT'') 20) = [0, 0, 0, 0, 0]
   \<and> 0 < realizedVolatility (sliceLast 20 (getPriceHistory spikeHistory ''BTCUSDT''))
   \<and> map_option volatilityRank (calculateVolatility atrLib spikeHistory ''BTCUSDT'' 20)
       = Some Low"
proof -
  let ?h = "replicate 119 (flatCandle 100) @ [flatCandle 110]"
  let ?cur = "realizedVolatility (sliceLast 20 ?h)"
  have h: "getPriceHistory spikeHistory ''BTCUSDT'' = ?h"
    by (simp add: getPriceHistory_def spikeHistory_def)
  have idx: "findIndex (\<lambda>v. v \<ge> ?cur) [0, 0, 0, 0, 0] = - 1"
    using current_spike by (simp add: Let_def)
  have "getVolatilityRank spikeHistory ''BTCUSDT'' ?cur = Low"
    by (simp add: getVolatilityRank_def h windows_spike idx Let_def)
  then have "map_option volatilityRank (calculateVolatility atrLib spikeHistory ''BTCUSDT'' 20)
               = Some Low"
    by (simp add: calculateVolatility_def h Let_def)
  then show ?thesis using current_spike by (simp add: h windows_spike)
qed

end
